theory Spec2Isabelle
  imports Main
begin

section \<open>Text: Python strings as lists of code points\<close>

text \<open>
  A Python \<open>str\<close> is a sequence of Unicode code points; \<open>len\<close>, slicing and the
  \<open>re\<close> module all count code points. The lexicon of the analyzer uses letters beyond
  Latin-1 (the letter range of the definition pattern runs from U+00C0 to U+017E), so a character is a natural
  number and not a \<open>char\<close>.

  The character tables below are those of CPython for the code points below U+0180
  (Basic Latin, Latin-1 Supplement, Latin Extended-A) and for General Punctuation
  (U+2000..U+206F); the white-space table is complete. Any other code point is taken
  to be a caseless symbol (neither letter nor digit), which is not what CPython says
  of, for example, Greek or Cyrillic letters: texts over those are outside this model.
\<close>

type_synonym uchar = nat
type_synonym ustring = "uchar list"

definition u :: "string \<Rightarrow> ustring" where
  "u s = map of_char s"

definition is_space :: "uchar \<Rightarrow> bool" where
  \<comment> \<open>\<open>str.isspace\<close>, the \<open>\s\<close> of \<open>re\<close> and what \<open>str.strip()\<close> removes\<close>
  "is_space c \<longleftrightarrow>
     (0x09 \<le> c \<and> c \<le> 0x0D) \<or> (0x1C \<le> c \<and> c \<le> 0x20) \<or> c = 0x85 \<or> c = 0xA0 \<or>
     c = 0x1680 \<or> (0x2000 \<le> c \<and> c \<le> 0x200A) \<or> c = 0x2028 \<or> c = 0x2029 \<or>
     c = 0x202F \<or> c = 0x205F \<or> c = 0x3000"

definition is_digit :: "uchar \<Rightarrow> bool" where
  \<comment> \<open>\<open>\d\<close>: the decimal digits\<close>
  "is_digit c \<longleftrightarrow> 0x30 \<le> c \<and> c \<le> 0x39"

definition is_word :: "uchar \<Rightarrow> bool" where
  \<comment> \<open>\<open>\w\<close>: alphanumeric (letters, digits, other numerics) or the underscore\<close>
  "is_word c \<longleftrightarrow>
     is_digit c \<or> (0x41 \<le> c \<and> c \<le> 0x5A) \<or> c = 0x5F \<or> (0x61 \<le> c \<and> c \<le> 0x7A) \<or>
     c = 0xAA \<or> c = 0xB2 \<or> c = 0xB3 \<or> c = 0xB5 \<or> c = 0xB9 \<or> c = 0xBA \<or>
     (0xBC \<le> c \<and> c \<le> 0xBE) \<or> (0xC0 \<le> c \<and> c \<le> 0xD6) \<or> (0xD8 \<le> c \<and> c \<le> 0xF6) \<or>
     (0xF8 \<le> c \<and> c \<le> 0x17F)"

definition to_lower :: "uchar \<Rightarrow> uchar" where
  \<comment> \<open>the simple lower-case mapping (one code point to one code point)\<close>
  "to_lower c =
     (if 0x41 \<le> c \<and> c \<le> 0x5A then c + 0x20
      else if 0xC0 \<le> c \<and> c \<le> 0xDE \<and> c \<noteq> 0xD7 then c + 0x20
      else if 0x100 \<le> c \<and> c \<le> 0x12F \<and> even c then c + 1
      else if c = 0x130 then 0x69
      else if 0x132 \<le> c \<and> c \<le> 0x137 \<and> even c then c + 1
      else if 0x139 \<le> c \<and> c \<le> 0x148 \<and> odd c then c + 1
      else if 0x14A \<le> c \<and> c \<le> 0x177 \<and> even c then c + 1
      else if c = 0x178 then 0xFF
      else if 0x179 \<le> c \<and> c \<le> 0x17E \<and> odd c then c + 1
      else c)"

definition to_upper :: "uchar \<Rightarrow> uchar" where
  \<comment> \<open>the simple upper-case mapping\<close>
  "to_upper c =
     (if 0x61 \<le> c \<and> c \<le> 0x7A then c - 0x20
      else if c = 0xB5 then 0x39C
      else if 0xE0 \<le> c \<and> c \<le> 0xFE \<and> c \<noteq> 0xF7 then c - 0x20
      else if c = 0xFF then 0x178
      else if 0x101 \<le> c \<and> c \<le> 0x12F \<and> odd c then c - 1
      else if c = 0x131 then 0x49
      else if 0x133 \<le> c \<and> c \<le> 0x137 \<and> odd c then c - 1
      else if 0x13A \<le> c \<and> c \<le> 0x148 \<and> even c then c - 1
      else if 0x14B \<le> c \<and> c \<le> 0x177 \<and> odd c then c - 1
      else if 0x17A \<le> c \<and> c \<le> 0x17E \<and> even c then c - 1
      else if c = 0x17F then 0x53
      else c)"

definition lower :: "ustring \<Rightarrow> ustring" where
  \<comment> \<open>\<open>str.lower()\<close>: the full mapping, under which U+0130 becomes two code points\<close>
  "lower s = concat (map (\<lambda>c. if c = 0x130 then [0x69, 0x307] else [to_lower c]) s)"

definition strip :: "ustring \<Rightarrow> ustring" where
  \<comment> \<open>\<open>str.strip()\<close>\<close>
  "strip s = rev (dropWhile is_space (rev (dropWhile is_space s)))"

fun startswith :: "ustring \<Rightarrow> ustring \<Rightarrow> bool" where
  \<comment> \<open>\<open>s.startswith(p)\<close>, written \<open>startswith p s\<close>\<close>
  "startswith [] s = True"
| "startswith (a # p) [] = False"
| "startswith (a # p) (b # s) = (a = b \<and> startswith p s)"

fun contains :: "ustring \<Rightarrow> ustring \<Rightarrow> bool" where
  \<comment> \<open>\<open>p in s\<close> on strings, written \<open>contains p s\<close>\<close>
  "contains p [] = (p = [])"
| "contains p (b # s) = (startswith p (b # s) \<or> contains p s)"

fun join :: "ustring \<Rightarrow> ustring list \<Rightarrow> ustring" where
  \<comment> \<open>\<open>sep.join(parts)\<close>\<close>
  "join sep [] = []"
| "join sep [x] = x"
| "join sep (x # y # ys) = x @ sep @ join sep (y # ys)"

section \<open>Regular expressions: the backtracking search of Python's re\<close>

text \<open>
  The patterns of the analyzer are kept as data, so that each can be read against its
  source text. The constructs are the ones the source uses: a literal, a character set,
  a greedy repetition of a single-character item (\<open>+\<close>, \<open>?\<close>, \<open>{2,}\<close>), an optional
  group, sequence, alternation, a capturing group, \<open>\b\<close> and a one-character
  look-behind.
\<close>

datatype cset = Single uchar | Range uchar uchar | Word_cat | Digit_cat | Space_cat

datatype atom = Lit uchar | In "cset list"

datatype regex =
    One atom
  | Many nat "nat option" atom
  | Opt regex
  | Seq "regex list"
  | Alt "regex list"
  | Group nat regex
  | Boundary
  | Behind atom

text \<open>A compiled pattern: the expression and the IGNORECASE flag.\<close>

type_synonym pattern = "regex \<times> bool"

definition lit :: "ustring \<Rightarrow> regex" where
  "lit s = Seq (map (\<lambda>c. One (Lit c)) s)"

definition fixes_of :: "uchar \<Rightarrow> uchar list" where
  \<comment> \<open>the other lower-case forms that IGNORECASE identifies with a character\<close>
  "fixes_of c =
     (if c = 0x69 then [0x131] else if c = 0x131 then [0x69]
      else if c = 0x73 then [0x17F] else if c = 0x17F then [0x73]
      else if c = 0xB5 then [0x3BC] else if c = 0x3BC then [0xB5]
      else [])"

fun in_cset :: "bool \<Rightarrow> cset \<Rightarrow> uchar \<Rightarrow> bool" where
  "in_cset ic (Single a) c =
     (if ic then to_lower c = to_lower a \<or> to_lower c \<in> set (fixes_of (to_lower a)) else c = a)"
| "in_cset ic (Range lo hi) c =
     (if ic then (lo \<le> to_lower c \<and> to_lower c \<le> hi) \<or>
                 (lo \<le> to_upper (to_lower c) \<and> to_upper (to_lower c) \<le> hi)
      else lo \<le> c \<and> c \<le> hi)"
| "in_cset ic Word_cat c = is_word c"
| "in_cset ic Digit_cat c = is_digit c"
| "in_cset ic Space_cat c = is_space c"

fun atom_matches :: "bool \<Rightarrow> atom \<Rightarrow> uchar \<Rightarrow> bool" where
  "atom_matches ic (Lit a) c = in_cset ic (Single a) c"
| "atom_matches ic (In cs) c = (\<exists>x \<in> set cs. in_cset ic x c)"

text \<open>
  A cursor is a position in the subject: the character before it (none at the start)
  and the text from it on. Captured groups are kept as number and text.
\<close>

type_synonym cursor = "uchar option \<times> ustring"
type_synonym groups = "(nat \<times> ustring) list"

definition word_before :: "cursor \<Rightarrow> bool" where
  "word_before c = (case fst c of None \<Rightarrow> False | Some a \<Rightarrow> is_word a)"

definition word_after :: "cursor \<Rightarrow> bool" where
  "word_after c = (case snd c of [] \<Rightarrow> False | a # _ \<Rightarrow> is_word a)"

fun run :: "bool \<Rightarrow> atom \<Rightarrow> cursor \<Rightarrow> cursor list" where
  \<comment> \<open>the cursors after 0, 1, 2, ... characters of the item, as long as they match\<close>
  "run ic a (p, []) = [(p, [])]"
| "run ic a (p, x # xs) =
     (p, x # xs) # (if atom_matches ic a x then run ic a (Some x, xs) else [])"

fun rmatch :: "bool \<Rightarrow> regex \<Rightarrow> cursor \<times> groups \<Rightarrow> (cursor \<times> groups) list" where
  \<comment> \<open>every way the expression matches at the cursor, in the order backtracking tries them\<close>
  "rmatch ic (One a) ((p, xs), g) =
     (case xs of [] \<Rightarrow> []
      | x # xs' \<Rightarrow> if atom_matches ic a x then [((Some x, xs'), g)] else [])"
| "rmatch ic (Many lo hi a) (c, g) =
     map (\<lambda>c'. (c', g))
       (rev (drop lo (case hi of None \<Rightarrow> run ic a c | Some h \<Rightarrow> take (Suc h) (run ic a c))))"
| "rmatch ic (Opt r) st = rmatch ic r st @ [st]"
| "rmatch ic (Seq []) st = [st]"
| "rmatch ic (Seq (r # rs)) st = concat (map (rmatch ic (Seq rs)) (rmatch ic r st))"
| "rmatch ic (Alt rs) st = concat (map (\<lambda>r. rmatch ic r st) rs)"
| "rmatch ic (Group n r) ((p, xs), g) =
     map (\<lambda>((p', xs'), g'). ((p', xs'), (n, take (length xs - length xs') xs) # g'))
       (rmatch ic r ((p, xs), g))"
| "rmatch ic Boundary (c, g) = (if word_before c \<noteq> word_after c then [(c, g)] else [])"
| "rmatch ic (Behind a) ((p, xs), g) =
     (case p of None \<Rightarrow> []
      | Some b \<Rightarrow> if atom_matches ic a b then [((p, xs), g)] else [])"

text \<open>A match object: where it starts, the text of group 0, the groups, where it ends.\<close>

record rematch =
  m_start :: cursor
  group0 :: ustring
  m_groups :: groups
  m_end :: cursor

definition m_group :: "rematch \<Rightarrow> nat \<Rightarrow> ustring option" where
  \<comment> \<open>\<open>m.group(n)\<close>; \<open>None\<close> for a group that took no part in the match\<close>
  "m_group m n = (if n = 0 then Some (group0 m) else map_of (m_groups m) n)"

definition match_at :: "pattern \<Rightarrow> cursor \<Rightarrow> rematch option" where
  \<comment> \<open>the first successful way to match at the cursor\<close>
  "match_at pat c =
     (case rmatch (snd pat) (fst pat) (c, []) of
        [] \<Rightarrow> None
      | (c', g) # _ \<Rightarrow>
          Some \<lparr>m_start = c, group0 = take (length (snd c) - length (snd c')) (snd c),
                m_groups = g, m_end = c'\<rparr>)"

fun search_from :: "pattern \<Rightarrow> cursor \<Rightarrow> rematch option" where
  \<comment> \<open>the leftmost match at or after the cursor\<close>
  "search_from pat (p, xs) =
     (case match_at pat (p, xs) of
        Some m \<Rightarrow> Some m
      | None \<Rightarrow> (case xs of [] \<Rightarrow> None | x # xs' \<Rightarrow> search_from pat (Some x, xs')))"

definition search :: "pattern \<Rightarrow> ustring \<Rightarrow> rematch option" where
  \<comment> \<open>\<open>pattern.search(s)\<close>\<close>
  "search pat s = search_from pat (None, s)"

fun finditer_from :: "pattern \<Rightarrow> cursor \<Rightarrow> rematch list" where
  \<comment> \<open>the successive non-overlapping matches, left to right. The search resumes where
      the match ended; after an empty match, which no pattern of the analyzer has, it
      resumes one character on.\<close>
  "finditer_from pat (p, xs) =
     (case match_at pat (p, xs) of
        Some m \<Rightarrow>
          (if length (snd (m_end m)) < length xs then m # finditer_from pat (m_end m)
           else m # (case xs of [] \<Rightarrow> [] | x # xs' \<Rightarrow> finditer_from pat (Some x, xs')))
      | None \<Rightarrow> (case xs of [] \<Rightarrow> [] | x # xs' \<Rightarrow> finditer_from pat (Some x, xs')))"

definition finditer :: "pattern \<Rightarrow> ustring \<Rightarrow> rematch list" where
  \<comment> \<open>\<open>pattern.finditer(s)\<close>; \<open>findall\<close> has one entry for each of these matches\<close>
  "finditer pat s = finditer_from pat (None, s)"

definition split_first :: "pattern \<Rightarrow> ustring \<Rightarrow> ustring" where
  \<comment> \<open>\<open>re.split(pattern, s)[0]\<close>: the text before the first match, or all of it\<close>
  "split_first pat s =
     (case search pat s of
        None \<Rightarrow> s
      | Some m \<Rightarrow> take (length s - length (snd (m_start m))) s)"

section \<open>Constants of the analyzer\<close>

definition WORD_RE :: pattern where
  \<comment> \<open>\<^verbatim>\<open>\b\w+\b\<close>, UNICODE\<close>
  "WORD_RE = (Seq [Boundary, Many 1 None (In [Word_cat]), Boundary], False)"

definition UNITS_NUMBER_RE :: pattern where
  \<comment> \<open>\<^verbatim>\<open>\b\d+(?:[.,]\d+)?\s?(mg|g|kg|%|kcal|ml|mcg|gramov|miligramov)\b\<close>,
      IGNORECASE | UNICODE\<close>
  "UNITS_NUMBER_RE =
     (Seq [Boundary,
           Many 1 None (In [Digit_cat]),
           Opt (Seq [One (In [Single 0x2E, Single 0x2C]), Many 1 None (In [Digit_cat])]),
           Many 0 (Some 1) (In [Space_cat]),
           Group 1 (Alt [lit (u ''mg''), lit (u ''g''), lit (u ''kg''), lit (u ''%''),
                         lit (u ''kcal''), lit (u ''ml''), lit (u ''mcg''),
                         lit (u ''gramov''), lit (u ''miligramov'')]),
           Boundary], True)"

definition BANNED_INTRO_PHRASES :: "ustring list" where
  "BANNED_INTRO_PHRASES =
     [u ''v tomto '' @ [0x10D] @ u ''l'' @ [0xE1] @ u ''nku'',
      u ''v tomto clanku'',
      u ''pozrieme sa'',
      u ''po'' @ [0x10F] @ u ''me sa pozrie'' @ [0x165],
      u ''podme sa pozriet'',
      u ''dozviete sa'',
      u ''zist'' @ [0xED] @ u ''te'',
      u ''zistite'',
      u ''na '' @ [0xFA] @ u ''vod'',
      u ''na uvod'',
      u ''v dne'' @ [0x161] @ u ''nom '' @ [0x10D] @ u ''l'' @ [0xE1] @ u ''nku'',
      u ''v dnesnom clanku'',
      u ''predstav'' @ [0xED] @ u ''me si'',
      u ''predstavime si'']"

definition definition_letter :: "cset list" where
  \<comment> \<open>the set \<^verbatim>\<open>[A-Za-z\<close>U+00C0\<^verbatim>\<open>-\<close>U+017E\<^verbatim>\<open>]\<close>\<close>
  "definition_letter = [Range 0x41 0x5A, Range 0x61 0x7A, Range 0xC0 0x17E]"

definition DEFINITION_RE :: pattern where
  \<comment> \<open>\<^verbatim>\<open>\b([A-Za-z..][A-Za-z..\-]{2,})\s+(je|znamena|predstavuje)\b\<close> with the letter
      set above and U+00E1 for the last letter of the second verb, IGNORECASE\<close>
  "DEFINITION_RE =
     (Seq [Boundary,
           Group 1 (Seq [One (In definition_letter),
                         Many 2 None (In (definition_letter @ [Single 0x2D]))]),
           Many 1 None (In [Space_cat]),
           Group 2 (Alt [lit (u ''je''), lit (u ''znamen'' @ [0xE1]), lit (u ''predstavuje'')]),
           Boundary], True)"

definition DEFINITION_STOPWORDS :: "ustring list" where
  "DEFINITION_STOPWORDS =
     [u ''toto'', u ''to'', u ''ten'', u ''t'' @ [0xE1], u ''ta'', u ''tieto'', u ''tak'',
      u ''taky'',
      [0x10D] @ u ''as'', u ''cas'', u ''telo'', u ''dnes'', u ''v'' @ [0x10D] @ u ''era'',
      u ''vcera'', u ''zajtra'',
      [0x17E] @ u ''ivot'', u ''zivot'', [0x10D] @ u ''lovek'', u ''clovek'',
      [0x13E] @ u ''udia'', u ''ludia'',
      u ''pravda'', u ''fakt'', u ''fakty'', u ''inform'' @ [0xE1] @ u ''cia'',
      u ''informacia'']"

definition SOURCE_TEXT_RE :: pattern where
  \<comment> \<open>\<^verbatim>\<open>\b(zdroje|references|referencie|studie|studie|literatura|literatura)\b\<close>, the
      first of each pair with its diacritics, IGNORECASE\<close>
  "SOURCE_TEXT_RE =
     (Seq [Boundary,
           Group 1 (Alt [lit (u ''zdroje''), lit (u ''references''), lit (u ''referencie''),
                         lit ([0x161] @ u ''t'' @ [0xFA] @ u ''die''), lit (u ''studie''),
                         lit (u ''literat'' @ [0xFA] @ u ''ra''), lit (u ''literatura'')]),
           Boundary], True)"

definition SOURCE_DOMAIN_RE :: pattern where
  \<comment> \<open>\<^verbatim>\<open>https?://(?:www\.)?(pubmed\.ncbi\.nlm\.nih\.gov|...|science\.org)\b\<close>, IGNORECASE\<close>
  "SOURCE_DOMAIN_RE =
     (Seq [lit (u ''http''), Many 0 (Some 1) (Lit 0x73), lit (u ''://''),
           Opt (lit (u ''www.'')),
           Group 1 (Alt [lit (u ''pubmed.ncbi.nlm.nih.gov''),
                         lit (u ''ncbi.nlm.nih.gov''),
                         lit (u ''examine.com''),
                         lit (u ''who.int''),
                         lit (u ''nih.gov''),
                         lit (u ''cdc.gov''),
                         lit (u ''efsa.europa.eu''),
                         lit (u ''cochranelibrary.com''),
                         lit (u ''jamanetwork.com''),
                         lit (u ''nejm.org''),
                         lit (u ''nature.com''),
                         lit (u ''science.org'')]),
           Boundary], True)"

definition FAQ_TEXT_RE :: pattern where
  \<comment> \<open>\<^verbatim>\<open>\b(faq|caste otazky|caste otazky|najcastejsie otazky|najcastejsie otazky)\b\<close>, the
      first of each pair with its diacritics, IGNORECASE\<close>
  "FAQ_TEXT_RE =
     (Seq [Boundary,
           Group 1 (Alt [lit (u ''faq''),
                         lit ([0x10D] @ u ''ast'' @ [0xE9] @ u '' ot'' @ [0xE1] @ u ''zky''),
                         lit (u ''caste otazky''),
                         lit (u ''naj'' @ [0x10D] @ u ''astej'' @ [0x161] @ u ''ie ot'' @ [0xE1] @ u ''zky''),
                         lit (u ''najcastejsie otazky'')]),
           Boundary], True)"

definition SENTENCE_SPLIT_RE :: pattern where
  \<comment> \<open>\<^verbatim>\<open>(?<=[.!?])\s+\<close>, the separator of \<^verbatim>\<open>_first_sentence\<close>\<close>
  "SENTENCE_SPLIT_RE =
     (Seq [Behind (In [Single 0x2E, Single 0x21, Single 0x3F]), Many 1 None (In [Space_cat])],
      False)"

definition NOISE_SELECTORS :: "ustring list" where
  "NOISE_SELECTORS =
     [u ''header'', u ''footer'', u ''nav'', u ''aside'', u ''form'', u ''noscript'']"

section \<open>The document tree\<close>

text \<open>
  The tree that \<^verbatim>\<open>BeautifulSoup(html, "html.parser")\<close> builds is the library's, not the
  repository's: the parser is a parameter of the model, a function from markup to a tree
  or an exception. What the analyzer itself does with the tree (\<^verbatim>\<open>find_all\<close>,
  \<^verbatim>\<open>decompose\<close>, \<^verbatim>\<open>get_text\<close>, \<^verbatim>\<open>.string\<close>, \<^verbatim>\<open>.get\<close>) is modelled on the tree.

  A string of the tree has the class the tree builder gave it; \<^verbatim>\<open>get_text\<close> on the
  document collects the strings of class NavigableString and CData only.
\<close>

datatype string_class =
  PlainString | CData | Comment | Declaration | Doctype | ProcessingInstruction
  | Script | Stylesheet | TemplateString

datatype node =
    NavigableString string_class ustring
  | Tag ustring "(ustring \<times> ustring) list" "node list"

type_synonym soup = "node list"

datatype exn = Exception string

fun descendants :: "node \<Rightarrow> node list" where
  \<comment> \<open>\<^verbatim>\<open>tag.descendants\<close>: document order\<close>
  "descendants (NavigableString k s) = []"
| "descendants (Tag n as cs) = concat (map (\<lambda>c. c # descendants c) cs)"

definition soup_descendants :: "soup \<Rightarrow> node list" where
  "soup_descendants sp = concat (map (\<lambda>c. c # descendants c) sp)"

fun is_tag :: "ustring \<Rightarrow> node \<Rightarrow> bool" where
  "is_tag name (NavigableString k s) = False"
| "is_tag name (Tag n as cs) = (n = name)"

fun get_attr :: "node \<Rightarrow> ustring \<Rightarrow> ustring option" where
  \<comment> \<open>\<^verbatim>\<open>tag.get(key)\<close>\<close>
  "get_attr (NavigableString k s) key = None"
| "get_attr (Tag n as cs) key = map_of as key"

definition find_all :: "(node \<Rightarrow> bool) \<Rightarrow> soup \<Rightarrow> node list" where
  \<comment> \<open>\<^verbatim>\<open>soup.find_all(...)\<close> for a test on the tag\<close>
  "find_all P sp = filter P (soup_descendants sp)"

fun prune :: "(node \<Rightarrow> bool) \<Rightarrow> node \<Rightarrow> node" where
  "prune P (NavigableString k s) = NavigableString k s"
| "prune P (Tag n as cs) = Tag n as (map (prune P) (filter (\<lambda>c. \<not> P c) cs))"

definition decompose_all :: "(node \<Rightarrow> bool) \<Rightarrow> soup \<Rightarrow> soup" where
  \<comment> \<open>\<^verbatim>\<open>for node in soup.find_all(...): node.decompose()\<close>: every node found leaves the
      tree with all that is below it\<close>
  "decompose_all P sp = map (prune P) (filter (\<lambda>c. \<not> P c) sp)"

definition aria_modal :: "node \<Rightarrow> bool" where
  \<comment> \<open>the test of \<^verbatim>\<open>find_all(attrs={"aria-modal": "true"})\<close>\<close>
  "aria_modal nd = (get_attr nd (u ''aria-modal'') = Some (u ''true''))"

definition strip_noise :: "soup \<Rightarrow> soup" where
  \<comment> \<open>\<^verbatim>\<open>_strip_noise\<close>; the source changes the tree in place, the model returns it\<close>
  "strip_noise sp =
     decompose_all aria_modal
       (foldl (\<lambda>s tag_name. decompose_all (is_tag tag_name) s) sp NOISE_SELECTORS)"

definition BeautifulSoup :: "(ustring \<Rightarrow> exn + soup) \<Rightarrow> ustring \<Rightarrow> exn + soup" where
  \<comment> \<open>\<^verbatim>\<open>BeautifulSoup(markup, "html.parser")\<close>: empty markup feeds nothing to the parser
      and gives the document without children\<close>
  "BeautifulSoup html_parser markup = (if markup = [] then Inr [] else html_parser markup)"

definition html_to_soup :: "(ustring \<Rightarrow> exn + soup) \<Rightarrow> ustring \<Rightarrow> exn + soup" where
  \<comment> \<open>\<^verbatim>\<open>_html_to_soup\<close>; \<^verbatim>\<open>_safe_str\<close> is the identity on a string\<close>
  "html_to_soup html_parser content_html =
     (case BeautifulSoup html_parser content_html of
        Inl e \<Rightarrow> Inl e
      | Inr sp \<Rightarrow> Inr (strip_noise sp))"

fun string_of :: "node \<Rightarrow> ustring option" where
  \<comment> \<open>one string of \<^verbatim>\<open>get_text\<close>'s default classes, if the node is one\<close>
  "string_of (NavigableString k s) = (if k = PlainString \<or> k = CData then Some s else None)"
| "string_of (Tag n as cs) = None"

definition get_text :: "soup \<Rightarrow> ustring" where
  \<comment> \<open>\<^verbatim>\<open>soup.get_text(" ", strip=True)\<close>: the stripped, non-empty strings, joined by one
      space\<close>
  "get_text sp =
     join (u '' '')
       (filter (\<lambda>s. s \<noteq> [])
          (map strip (List.map_filter string_of (soup_descendants sp))))"

definition plain_text_from_soup :: "soup \<Rightarrow> ustring" where
  \<comment> \<open>\<^verbatim>\<open>_plain_text_from_soup\<close>; a BeautifulSoup object is true whatever it holds, so the
      text is always \<^verbatim>\<open>get_text\<close>'s\<close>
  "plain_text_from_soup sp = get_text sp"

fun tag_string :: "node \<Rightarrow> ustring option" where
  \<comment> \<open>\<^verbatim>\<open>.string\<close>: the single string below the node, if there is exactly one path to it\<close>
  "tag_string (NavigableString k s) = Some s"
| "tag_string (Tag n as [c]) = tag_string c"
| "tag_string (Tag n as cs) = None"

definition safe_str :: "ustring option \<Rightarrow> ustring" where
  \<comment> \<open>\<^verbatim>\<open>_safe_str\<close>: the empty string for \<^verbatim>\<open>None\<close>\<close>
  "safe_str v = (case v of None \<Rightarrow> [] | Some s \<Rightarrow> s)"

section \<open>Results and evidence\<close>

datatype val = VBool bool | VInt int | VStr ustring | VList "ustring list"

type_synonym evidence = "(string \<times> val) list"

text \<open>
  The ten criteria are the keys of \<^verbatim>\<open>details\<close> and of \<^verbatim>\<open>RECOMMENDATIONS_TEXT\<close>; every
  subscript in the source is one of these ten literal keys.
\<close>

datatype criterion =
  DIRECT_ANSWER | DEFINITION | HEADINGS | FACTS | SOURCES | FAQ | LISTS | TABLES
  | WORD_COUNT_OK | META_OK

record AuditResult =
  direct_answer :: bool
  definition_flag :: bool
  headings :: bool
  facts :: bool
  sources :: bool
  faq :: bool
  lists_flag :: bool
  tables :: bool
  word_count_ok :: bool
  meta_ok :: bool
  score :: int
  details :: "(criterion \<times> evidence) list"
  recommendations :: "ustring list"

section \<open>Helpers\<close>

definition count_words :: "ustring \<Rightarrow> nat" where
  \<comment> \<open>\<^verbatim>\<open>_count_words\<close>\<close>
  "count_words text = length (finditer WORD_RE text)"

definition first_sentence :: "ustring \<Rightarrow> ustring" where
  \<comment> \<open>\<^verbatim>\<open>_first_sentence\<close>\<close>
  "first_sentence text =
     (let t = strip text
      in if t = [] then [] else strip (take 400 (split_first SENTENCE_SPLIT_RE t)))"

section \<open>Criterion checks\<close>

definition check_direct_answer :: "ustring \<Rightarrow> bool \<times> evidence" where
  "check_direct_answer plain_text =
     (let text = strip plain_text;
          intro_150 = take 150 text;
          lowered = lower intro_150;
          banned_hits = filter (\<lambda>p. contains p lowered) BANNED_INTRO_PHRASES;
          first = first_sentence text;
          first_words = (if first \<noteq> [] then finditer WORD_RE first else []);
          looks_like_question =
            ((first \<noteq> [] \<and> last first = 0x3F) \<or> 0x3F \<in> set (take 120 first));
          passed = (first \<noteq> [] \<and> banned_hits = [] \<and> \<not> looks_like_question \<and>
                    6 \<le> length first_words)
      in (passed,
          [(''intro_150'', VStr intro_150),
           (''first_sentence'', VStr first),
           (''first_sentence_words'', VInt (int (length first_words))),
           (''banned_hits'', VList banned_hits),
           (''looks_like_question'', VBool looks_like_question)]))"

fun definition_scan :: "bool \<Rightarrow> ustring \<Rightarrow> rematch list \<Rightarrow> (rematch \<times> ustring) option" where
  \<comment> \<open>the \<^verbatim>\<open>for m in DEFINITION_RE.finditer(window)\<close> loop: the first match that no
      \<^verbatim>\<open>continue\<close> skips, with its term\<close>
  "definition_scan strict title_l [] = None"
| "definition_scan strict title_l (m # ms) =
     (let term = strip (safe_str (m_group m 1))
      in if term = [] then definition_scan strict title_l ms
         else if lower term \<in> set DEFINITION_STOPWORDS then definition_scan strict title_l ms
         else if strict \<and> title_l \<noteq> [] \<and> \<not> contains (lower term) title_l
           then definition_scan strict title_l ms
         else Some (m, term))"

definition check_definition :: "ustring \<Rightarrow> ustring \<Rightarrow> bool \<Rightarrow> int \<Rightarrow> bool \<times> evidence" where
  \<comment> \<open>\<^verbatim>\<open>check_definition(plain_text, title=, strict=, window_chars=)\<close>\<close>
  "check_definition plain_text title strict window_chars =
     (let text = strip plain_text;
          window = take (nat (max 0 window_chars)) text;
          title_l = strip (lower title)
      in case definition_scan strict title_l (finditer DEFINITION_RE window) of
           Some (m, term) \<Rightarrow>
             (True,
              [(''definition_match'', VStr (group0 m)),
               (''term'', VStr term),
               (''strict'', VBool strict),
               (''window_chars'', VInt window_chars)])
         | None \<Rightarrow>
             (False,
              [(''definition_match'', VStr []),
               (''term'', VStr []),
               (''strict'', VBool strict),
               (''window_chars'', VInt window_chars)]))"

definition check_h2_headings :: "soup \<Rightarrow> int \<Rightarrow> bool \<times> evidence" where
  "check_h2_headings sp min_h2 =
     (let h2s = find_all (is_tag (u ''h2'')) sp;
          count = int (length h2s)
      in (min_h2 \<le> count, [(''h2_count'', VInt count), (''min_h2'', VInt min_h2)]))"

definition check_facts :: "ustring \<Rightarrow> int \<Rightarrow> bool \<times> evidence" where
  "check_facts plain_text min_numbers_with_units =
     (let matches = finditer UNITS_NUMBER_RE plain_text;
          count = int (length matches)
      in (min_numbers_with_units \<le> count,
          [(''numbers_with_units_found'', VInt count),
           (''min_numbers_with_units'', VInt min_numbers_with_units),
           (''units_regex'',
            VStr ([0x5C, 0x5C] @ u ''d+'' @ [0x5C, 0x5C] @
                  u ''s?(mg|g|kg|%|kcal|ml|mcg|gramov|miligramov)''))]))"

definition is_http :: "ustring \<Rightarrow> bool" where
  \<comment> \<open>\<^verbatim>\<open>h.lower().startswith(("http://", "https://"))\<close>\<close>
  "is_http h = (startswith (u ''http://'') (lower h) \<or> startswith (u ''https://'') (lower h))"

definition has_href :: "node \<Rightarrow> bool" where
  \<comment> \<open>the test of \<^verbatim>\<open>find_all("a", href=True)\<close>\<close>
  "has_href nd = (is_tag (u ''a'') nd \<and> get_attr nd (u ''href'') \<noteq> None)"

definition check_sources :: "ustring \<Rightarrow> soup \<Rightarrow> bool \<Rightarrow> bool \<times> evidence" where
  "check_sources plain_text sp strict =
     (let text = plain_text;
          has_source_section = (search SOURCE_TEXT_RE text \<noteq> None);
          hrefs = map (\<lambda>a. safe_str (get_attr a (u ''href''))) (find_all has_href sp);
          joined = join (u '' '') hrefs;
          whitelisted = finditer SOURCE_DOMAIN_RE joined;
          whitelisted_count = int (length whitelisted);
          http_links_count = int (length (filter is_http hrefs));
          passed =
            (if strict
             then (0 < whitelisted_count) \<or> (has_source_section \<and> 0 < http_links_count)
             else has_source_section \<or> (0 < whitelisted_count))
      in (passed,
          [(''has_source_section'', VBool has_source_section),
           (''whitelisted_links_count'', VInt whitelisted_count),
           (''http_links_count'', VInt http_links_count),
           (''strict'', VBool strict)]))"

definition is_ld_json :: "node \<Rightarrow> bool" where
  \<comment> \<open>the test of \<^verbatim>\<open>find_all("script", attrs={"type": "application/ld+json"})\<close>\<close>
  "is_ld_json nd =
     (is_tag (u ''script'') nd \<and> get_attr nd (u ''type'') = Some (u ''application/ld+json''))"

definition check_faq :: "ustring \<Rightarrow> soup \<Rightarrow> bool \<times> evidence" where
  "check_faq plain_text sp =
     (let text = plain_text;
          text_hint = (search FAQ_TEXT_RE text \<noteq> None);
          has_dl = (find_all (is_tag (u ''dl'')) sp \<noteq> []);
          has_faq_schema =
            (\<exists>script \<in> set (find_all is_ld_json sp).
               contains (u ''FAQPage'') (safe_str (tag_string script)));
          passed = (text_hint \<or> has_dl \<or> has_faq_schema)
      in (passed,
          [(''text_hint'', VBool text_hint),
           (''has_dl'', VBool has_dl),
           (''has_faq_schema'', VBool has_faq_schema)]))"

definition check_lists :: "soup \<Rightarrow> int \<Rightarrow> bool \<times> evidence" where
  "check_lists sp min_lists =
     (let ul_count = int (length (find_all (is_tag (u ''ul'')) sp));
          ol_count = int (length (find_all (is_tag (u ''ol'')) sp));
          count = ul_count + ol_count
      in (min_lists \<le> count,
          [(''list_count'', VInt count), (''ul'', VInt ul_count), (''ol'', VInt ol_count),
           (''min_lists'', VInt min_lists)]))"

definition check_tables :: "soup \<Rightarrow> int \<Rightarrow> bool \<times> evidence" where
  "check_tables sp min_tables =
     (let count = int (length (find_all (is_tag (u ''table'')) sp))
      in (min_tables \<le> count, [(''table_count'', VInt count), (''min_tables'', VInt min_tables)]))"

definition check_word_count :: "ustring \<Rightarrow> int \<Rightarrow> bool \<times> evidence" where
  "check_word_count plain_text min_words =
     (let wc = int (count_words plain_text);
          passed = (min_words \<le> wc)
      in (passed, [(''word_count'', VInt wc), (''min_words'', VInt min_words)]))"

definition check_meta_description :: "ustring \<Rightarrow> int \<Rightarrow> int \<Rightarrow> bool \<times> evidence" where
  "check_meta_description meta_description min_len max_len =
     (let md = strip meta_description;
          n = int (length md);
          passed = (min_len \<le> n \<and> n \<le> max_len)
      in (passed, [(''meta_len'', VInt n), (''min_len'', VInt min_len), (''max_len'', VInt max_len)]))"

section \<open>Recommendations\<close>

fun RECOMMENDATIONS_TEXT :: "criterion \<Rightarrow> ustring" where
  "RECOMMENDATIONS_TEXT DIRECT_ANSWER =
     u ''Pridaj priamu odpove'' @ [0x10F] @ u '' hne'' @ [0x10F] @ u '' do '' @ [0xFA] @
     u ''vodu (1'' @ [0x2013] @ u ''2 vety), bez vaty a bez ot'' @ [0xE1] @ u ''zok.''"
| "RECOMMENDATIONS_TEXT DEFINITION =
     u ''Dopl'' @ [0x148] @ u '' stru'' @ [0x10D] @ u ''n'' @ [0xFA] @ u '' defin'' @ [0xED] @
     u ''ciu hlavn'' @ [0xE9] @ u ''ho pojmu (napr. '' @ [0x201E] @ u ''X je '' @ [0x2026] @
     u '' / X znamen'' @ [0xE1] @ u '' '' @ [0x2026] @ [0x201C] @ u ''), ide'' @ [0xE1] @
     u ''lne v '' @ [0xFA] @ u ''vode.''"
| "RECOMMENDATIONS_TEXT HEADINGS =
     u ''Pridaj viac H2 podnadpisov ('' @ [0x10D] @ u ''l'' @ [0xE1] @ u ''nok sa bude lep'' @
     [0x161] @ u ''ie skenova'' @ [0x165] @ u '' a segmentova'' @ [0x165] @ u '').''"
| "RECOMMENDATIONS_TEXT FACTS =
     u ''Dopl'' @ [0x148] @ u '' merate'' @ [0x13E] @ u ''n'' @ [0xE9] @ u '' fakty ('' @
     [0x10D] @ [0xED] @ u ''sla, percent'' @ [0xE1] @ u '', d'' @ [0xE1] @ u ''vkovanie, '' @
     [0x161] @ u ''t'' @ [0xFA] @ u ''die), aby bol obsah konkr'' @ [0xE9] @ u ''tnej'' @
     [0x161] @ [0xED] @ u ''.''"
| "RECOMMENDATIONS_TEXT SOURCES =
     u ''Dopl'' @ [0x148] @ u '' cit'' @ [0xE1] @ u ''cie zdrojov (odkazy) alebo sekciu '' @
     [0x201E] @ u ''Zdroje/References/'' @ [0x160] @ u ''t'' @ [0xFA] @ u ''die'' @ [0x201C] @
     u '' s re'' @ [0xE1] @ u ''lnymi linkami.''"
| "RECOMMENDATIONS_TEXT FAQ =
     u ''Pridaj FAQ blok (FAQ/'' @ [0x10C] @ u ''ast'' @ [0xE9] @ u '' ot'' @ [0xE1] @
     u ''zky) '' @ [0x2013] @ u '' ide'' @ [0xE1] @ u ''lne s konkr'' @ [0xE9] @
     u ''tnymi ot'' @ [0xE1] @ u ''zkami a odpove'' @ [0x10F] @ u ''ami.''"
| "RECOMMENDATIONS_TEXT LISTS =
     u ''Pridaj zoznamy (<ul>/<ol>) pre lep'' @ [0x161] @ u ''iu '' @ [0x10D] @ u ''itate'' @
     [0x13E] @ u ''nos'' @ [0x165] @ u '' (napr. kroky, tipy, v'' @ [0xFD] @ u ''hody/nev'' @
     [0xFD] @ u ''hody).''"
| "RECOMMENDATIONS_TEXT TABLES =
     u ''Ak d'' @ [0xE1] @ u ''va zmysel, pridaj tabu'' @ [0x13E] @
     u ''ku (porovnanie, d'' @ [0xE1] @ u ''vkovanie, preh'' @ [0x13E] @ u ''ad) pre r'' @
     [0xFD] @ u ''chle skenovanie.''"
| "RECOMMENDATIONS_TEXT WORD_COUNT_OK =
     u ''Dopl'' @ [0x148] @ u '' obsah '' @ [0x2013] @ u '' '' @ [0x10D] @ u ''l'' @ [0xE1] @
     u ''nok m'' @ [0xE1] @ u '' ma'' @ [0x165] @ u '' aspo'' @ [0x148] @
     u '' 500 slov (word count z '' @ [0x10D] @ u ''ist'' @ [0xE9] @ u ''ho textu bez HTML).''"
| "RECOMMENDATIONS_TEXT META_OK =
     u ''Uprav meta description na ~120'' @ [0x2013] @
     u ''160 znakov (jasne, s benefitom a k'' @ [0x13E] @ [0xFA] @ [0x10D] @ u ''ov'' @ [0xFD] @
     u ''m pojmom).''"

section \<open>Public API\<close>

text \<open>
  A call of a check returns its pair or raises. \<^verbatim>\<open>analyze_article\<close> calls the ten checks
  one after the other with no handler around them, so an exception of a call is the
  outcome of \<^verbatim>\<open>analyze_article\<close>: the calls are chained by \<open>bind_exn\<close>. The checks are
  gathered in a record, so that the way \<^verbatim>\<open>analyze_article\<close> treats a raising call can be
  stated; \<open>module_checks\<close> are the ten functions of the module, with their default
  thresholds.
\<close>

definition bind_exn :: "exn + 'a \<Rightarrow> ('a \<Rightarrow> exn + 'b) \<Rightarrow> exn + 'b" where
  "bind_exn x f = (case x of Inl e \<Rightarrow> Inl e | Inr v \<Rightarrow> f v)"

record checks =
  call_direct_answer :: "ustring \<Rightarrow> exn + bool \<times> evidence"
  call_definition :: "ustring \<Rightarrow> ustring \<Rightarrow> bool \<Rightarrow> exn + bool \<times> evidence"
  call_h2_headings :: "soup \<Rightarrow> exn + bool \<times> evidence"
  call_facts :: "ustring \<Rightarrow> exn + bool \<times> evidence"
  call_sources :: "ustring \<Rightarrow> soup \<Rightarrow> bool \<Rightarrow> exn + bool \<times> evidence"
  call_faq :: "ustring \<Rightarrow> soup \<Rightarrow> exn + bool \<times> evidence"
  call_lists :: "soup \<Rightarrow> exn + bool \<times> evidence"
  call_tables :: "soup \<Rightarrow> exn + bool \<times> evidence"
  call_word_count :: "ustring \<Rightarrow> exn + bool \<times> evidence"
  call_meta_description :: "ustring \<Rightarrow> exn + bool \<times> evidence"

definition module_checks :: checks where
  "module_checks =
     \<lparr>call_direct_answer = (\<lambda>plain. Inr (check_direct_answer plain)),
      call_definition = (\<lambda>plain title strict. Inr (check_definition plain title strict 1200)),
      call_h2_headings = (\<lambda>sp. Inr (check_h2_headings sp 3)),
      call_facts = (\<lambda>plain. Inr (check_facts plain 3)),
      call_sources = (\<lambda>plain sp strict. Inr (check_sources plain sp strict)),
      call_faq = (\<lambda>plain sp. Inr (check_faq plain sp)),
      call_lists = (\<lambda>sp. Inr (check_lists sp 1)),
      call_tables = (\<lambda>sp. Inr (check_tables sp 1)),
      call_word_count = (\<lambda>plain. Inr (check_word_count plain 500)),
      call_meta_description = (\<lambda>md. Inr (check_meta_description md 120 160))\<rparr>"

definition audit_result ::
  "bool \<times> evidence \<Rightarrow> bool \<times> evidence \<Rightarrow> bool \<times> evidence \<Rightarrow> bool \<times> evidence \<Rightarrow>
   bool \<times> evidence \<Rightarrow> bool \<times> evidence \<Rightarrow> bool \<times> evidence \<Rightarrow> bool \<times> evidence \<Rightarrow>
   bool \<times> evidence \<Rightarrow> bool \<times> evidence \<Rightarrow> AuditResult" where
  \<comment> \<open>the second half of \<^verbatim>\<open>analyze_article\<close>: flags, score, details, recommendations\<close>
  "audit_result direct defn h2 fct src fq lst tbl wc meta =
     (let direct_ok = fst direct; def_ok = fst defn; h2_ok = fst h2; facts_ok = fst fct;
          sources_ok = fst src; faq_ok = fst fq; lists_ok = fst lst; tables_ok = fst tbl;
          wc_ok = fst wc; meta_okay = fst meta;
          flags = [direct_ok, def_ok, h2_ok, facts_ok, sources_ok, faq_ok, lists_ok,
                   tables_ok, wc_ok, meta_okay];
          the_score = int (length (filter (\<lambda>x. x) flags));
          the_details =
            [(DIRECT_ANSWER, snd direct), (DEFINITION, snd defn), (HEADINGS, snd h2),
             (FACTS, snd fct), (SOURCES, snd src), (FAQ, snd fq), (LISTS, snd lst),
             (TABLES, snd tbl), (WORD_COUNT_OK, snd wc), (META_OK, snd meta)];
          recs =
            (if \<not> direct_ok then [RECOMMENDATIONS_TEXT DIRECT_ANSWER] else []) @
            (if \<not> def_ok then [RECOMMENDATIONS_TEXT DEFINITION] else []) @
            (if \<not> h2_ok then [RECOMMENDATIONS_TEXT HEADINGS] else []) @
            (if \<not> facts_ok then [RECOMMENDATIONS_TEXT FACTS] else []) @
            (if \<not> sources_ok then [RECOMMENDATIONS_TEXT SOURCES] else []) @
            (if \<not> faq_ok then [RECOMMENDATIONS_TEXT FAQ] else []) @
            (if \<not> lists_ok then [RECOMMENDATIONS_TEXT LISTS] else []) @
            (if \<not> tables_ok then [RECOMMENDATIONS_TEXT TABLES] else []) @
            (if \<not> wc_ok then [RECOMMENDATIONS_TEXT WORD_COUNT_OK] else []) @
            (if \<not> meta_okay then [RECOMMENDATIONS_TEXT META_OK] else [])
      in \<lparr>direct_answer = direct_ok, definition_flag = def_ok, headings = h2_ok,
          facts = facts_ok, sources = sources_ok, faq = faq_ok, lists_flag = lists_ok,
          tables = tables_ok, word_count_ok = wc_ok, meta_ok = meta_okay,
          score = the_score, details = the_details, recommendations = recs\<rparr>)"

definition normalize :: "(ustring \<Rightarrow> exn + soup) \<Rightarrow> ustring \<Rightarrow> exn + soup \<times> ustring" where
  \<comment> \<open>the two guarded steps at the head of \<^verbatim>\<open>analyze_article\<close>. The handler of the first
      builds the empty document by a call of its own; the text of a tree is total in
      this model, so the handler of the second is never entered.\<close>
  "normalize html_parser content_html =
     bind_exn
       (case html_to_soup html_parser content_html of
          Inr sp \<Rightarrow> Inr sp
        | Inl e \<Rightarrow> BeautifulSoup html_parser [])
       (\<lambda>sp. Inr (sp, plain_text_from_soup sp))"

definition analyze_with ::
  "checks \<Rightarrow> (ustring \<Rightarrow> exn + soup) \<Rightarrow> ustring \<Rightarrow> ustring \<Rightarrow> ustring \<Rightarrow> bool \<Rightarrow>
   exn + AuditResult" where
  "analyze_with K html_parser content_html meta_description title strict =
     bind_exn (normalize html_parser content_html) (\<lambda>(sp, plain).
     bind_exn (call_direct_answer K plain) (\<lambda>direct.
     bind_exn (call_definition K plain title strict) (\<lambda>defn.
     bind_exn (call_h2_headings K sp) (\<lambda>h2.
     bind_exn (call_facts K plain) (\<lambda>fct.
     bind_exn (call_sources K plain sp strict) (\<lambda>src.
     bind_exn (call_faq K plain sp) (\<lambda>fq.
     bind_exn (call_lists K sp) (\<lambda>lst.
     bind_exn (call_tables K sp) (\<lambda>tbl.
     bind_exn (call_word_count K plain) (\<lambda>wc.
     bind_exn (call_meta_description K meta_description) (\<lambda>meta.
     Inr (audit_result direct defn h2 fct src fq lst tbl wc meta))))))))))))"

definition analyze_article ::
  "(ustring \<Rightarrow> exn + soup) \<Rightarrow> ustring \<Rightarrow> ustring \<Rightarrow> ustring \<Rightarrow> bool \<Rightarrow> exn + AuditResult" where
  \<comment> \<open>\<^verbatim>\<open>analyze_article(content_html, meta_description, title=, strict=)\<close>, for a given
      tree builder\<close>
  "analyze_article = analyze_with module_checks"

definition verdicts :: "AuditResult \<Rightarrow> bool list" where
  \<comment> \<open>the ten criterion fields, in the canonical order\<close>
  "verdicts r =
     [direct_answer r, definition_flag r, headings r, facts r, sources r, faq r,
      lists_flag r, tables r, word_count_ok r, meta_ok r]"

definition soup_of :: "(ustring \<Rightarrow> exn + soup) \<Rightarrow> ustring \<Rightarrow> soup" where
  \<comment> \<open>the tree the checks of \<^verbatim>\<open>analyze_article\<close> get: the parsed tree without its noise,
      or the empty document when parsing raised\<close>
  "soup_of html_parser content_html =
     (case html_to_soup html_parser content_html of Inr sp \<Rightarrow> sp | Inl e \<Rightarrow> [])"

section \<open>Notions and inputs of the statements\<close>

definition kreatin_text :: ustring where
  \<comment> \<open>the text of the definition example of the specification, with its diacritics and its
      final horizontal ellipsis (U+2026)\<close>
  "kreatin_text =
     u ''Kreat'' @ [0xED] @ u ''n je doplnok v'' @ [0xFD] @ [0x17E] @ u ''ivy'' @ [0x2026]"

definition kreatin_title :: ustring where
  "kreatin_title = u ''Kreat'' @ [0xED] @ u ''n''"

definition vitaminy_title :: ustring where
  "vitaminy_title = u ''Vitam'' @ [0xED] @ u ''ny''"











section \<open>The aggregation\<close>

lemma normalize_eq:
  "normalize P c = Inr (soup_of P c, plain_text_from_soup (soup_of P c))"
  by (simp add: normalize_def soup_of_def bind_exn_def BeautifulSoup_def split: sum.splits)

lemma analyze_article_eq:
  "analyze_article P c m t s =
     Inr (audit_result
            (check_direct_answer (plain_text_from_soup (soup_of P c)))
            (check_definition (plain_text_from_soup (soup_of P c)) t s 1200)
            (check_h2_headings (soup_of P c) 3)
            (check_facts (plain_text_from_soup (soup_of P c)) 3)
            (check_sources (plain_text_from_soup (soup_of P c)) (soup_of P c) s)
            (check_faq (plain_text_from_soup (soup_of P c)) (soup_of P c))
            (check_lists (soup_of P c) 1)
            (check_tables (soup_of P c) 1)
            (check_word_count (plain_text_from_soup (soup_of P c)) 500)
            (check_meta_description m 120 160))"
  by (simp add: analyze_article_def analyze_with_def normalize_eq bind_exn_def module_checks_def)

lemma count_step:
  "length (filter (\<lambda>x. x) (b # bs)) = (if b then 1 else 0) + length (filter (\<lambda>x. x) bs)"
  by simp

lemma audit_result_verdicts:
  "verdicts (audit_result a b c d e f g h i j) =
     [fst a, fst b, fst c, fst d, fst e, fst f, fst g, fst h, fst i, fst j]"
  by (simp add: verdicts_def audit_result_def Let_def)

lemma audit_result_score:
  "score (audit_result a b c d e f g h i j) =
     int (length (filter (\<lambda>x. x)
       [fst a, fst b, fst c, fst d, fst e, fst f, fst g, fst h, fst i, fst j]))"
  by (simp only: audit_result_def Let_def AuditResult.simps)

lemma rec_len:
  "int (length ((if \<not> b then [x] else []) @ xs)) = (if b then 0 else 1) + int (length xs)"
  by simp

lemma audit_result_recs:
  "int (length (recommendations (audit_result a b c d e f g h i j))) =
     10 - int (length (filter (\<lambda>x. x)
       [fst a, fst b, fst c, fst d, fst e, fst f, fst g, fst h, fst i, fst j]))"
  unfolding audit_result_def Let_def AuditResult.simps
  by (simp only: rec_len count_step append_Nil2 list.size filter.simps(1) of_nat_add) (simp)

text \<open>
  Claim C1. For every tree builder and every input (content_html, meta_description,
  title, strict), \<^verbatim>\<open>analyze_article\<close> returns an AuditResult whose score is the number of
  true verdicts among its ten criterion fields; the score lies between 0 and 10, and the
  list of recommendations has 10 minus score entries.
\<close>

theorem score_counts_true_verdicts:
  "\<exists>r. analyze_article P c m t s = Inr r \<and>
       score r = int (length (filter (\<lambda>x. x) (verdicts r))) \<and>
       0 \<le> score r \<and> score r \<le> 10 \<and>
       int (length (recommendations r)) = 10 - score r"
proof -
  let ?r = "audit_result
            (check_direct_answer (plain_text_from_soup (soup_of P c)))
            (check_definition (plain_text_from_soup (soup_of P c)) t s 1200)
            (check_h2_headings (soup_of P c) 3)
            (check_facts (plain_text_from_soup (soup_of P c)) 3)
            (check_sources (plain_text_from_soup (soup_of P c)) (soup_of P c) s)
            (check_faq (plain_text_from_soup (soup_of P c)) (soup_of P c))
            (check_lists (soup_of P c) 1)
            (check_tables (soup_of P c) 1)
            (check_word_count (plain_text_from_soup (soup_of P c)) 500)
            (check_meta_description m 120 160)"
  have 1: "analyze_article P c m t s = Inr ?r" by (rule analyze_article_eq)
  have 2: "score ?r = int (length (filter (\<lambda>x. x) (verdicts ?r)))"
    by (simp only: audit_result_score audit_result_verdicts)
  have "length (filter (\<lambda>x. x) (verdicts ?r)) \<le> length (verdicts ?r)"
    by (rule length_filter_le)
  then have 3: "score ?r \<le> 10" unfolding 2 by (simp only: audit_result_verdicts) simp
  have 4: "0 \<le> score ?r" unfolding 2 by simp
  have 5: "int (length (recommendations ?r)) = 10 - score ?r"
    by (simp only: audit_result_recs audit_result_score)
  from 1 2 3 4 5 show ?thesis by blast
qed

section \<open>Evaluation of the checks\<close>

lemmas regex_eval =
  finditer_def search_def lit_def u_def match_at_def m_group_def word_before_def word_after_def
  is_word_def is_digit_def is_space_def to_lower_def fixes_of_def to_upper_def

lemma soup_of_empty: "soup_of P [] = []"
  by (simp add: soup_of_def html_to_soup_def BeautifulSoup_def strip_noise_def
      decompose_all_def NOISE_SELECTORS_def)

lemma get_text_empty: "plain_text_from_soup [] = []"
  by (simp add: plain_text_from_soup_def get_text_def soup_descendants_def
      List.map_filter_simps)

lemma find_all_empty: "find_all Q [] = []"
  by (simp add: find_all_def soup_descendants_def)

lemma strip_empty: "strip [] = []"
  by (simp add: strip_def)

lemma direct_empty: "fst (check_direct_answer []) = False"
  by (simp add: check_direct_answer_def first_sentence_def strip_empty Let_def)

lemma finditer_definition_empty: "finditer DEFINITION_RE [] = []"
  by (simp add: regex_eval DEFINITION_RE_def definition_letter_def)

lemma definition_empty: "fst (check_definition [] t s w) = False"
  by (simp add: check_definition_def strip_empty finditer_definition_empty Let_def)

lemma h2_empty: "fst (check_h2_headings [] 3) = False"
  by (simp add: check_h2_headings_def find_all_empty Let_def)

lemma facts_empty: "fst (check_facts [] 3) = False"
  by (simp add: check_facts_def regex_eval UNITS_NUMBER_RE_def Let_def)

lemma sources_empty: "fst (check_sources [] [] s) = False"
  by (simp add: check_sources_def find_all_empty regex_eval SOURCE_TEXT_RE_def
      SOURCE_DOMAIN_RE_def Let_def)

lemma faq_empty: "fst (check_faq [] []) = False"
  by (simp add: check_faq_def find_all_empty regex_eval FAQ_TEXT_RE_def Let_def)

lemma lists_empty: "fst (check_lists [] 1) = False"
  by (simp add: check_lists_def find_all_empty Let_def)

lemma tables_empty: "fst (check_tables [] 1) = False"
  by (simp add: check_tables_def find_all_empty Let_def)

lemma words_empty: "fst (check_word_count [] 500) = False"
  by (simp add: check_word_count_def count_words_def regex_eval WORD_RE_def Let_def)

lemma meta_empty: "fst (check_meta_description [] 120 160) = False"
  by (simp add: check_meta_description_def strip_empty Let_def)

text \<open>
  Claim C7. With empty content_html and empty meta_description, whatever the title,
  the strict flag and the tree builder, \<^verbatim>\<open>analyze_article\<close> returns a result whose ten
  verdicts are all false and whose score is 0.
\<close>

theorem empty_article_scores_zero:
  "\<exists>r. analyze_article P [] [] t s = Inr r \<and>
       verdicts r = [False, False, False, False, False, False, False, False, False, False] \<and>
       score r = 0"
  by (simp add: analyze_article_eq soup_of_empty get_text_empty audit_result_verdicts
        audit_result_score direct_empty definition_empty h2_empty facts_empty sources_empty
        faq_empty lists_empty tables_empty words_empty meta_empty)

text \<open>
  Claim C8. For every input (content_html, meta_description, title) and tree builder, the
  strict and the non-strict run of \<^verbatim>\<open>analyze_article\<close> both return a result, and the
  eight verdicts other than definition and sources (direct_answer, headings, facts, faq,
  lists, tables, word_count_ok, meta_ok) are the same in the two results.
\<close>

theorem strict_changes_two_checks_only:
  "\<exists>r1 r2. analyze_article P c m t True = Inr r1 \<and> analyze_article P c m t False = Inr r2 \<and>
     direct_answer r1 = direct_answer r2 \<and> headings r1 = headings r2 \<and> facts r1 = facts r2 \<and>
     faq r1 = faq r2 \<and> lists_flag r1 = lists_flag r2 \<and> tables r1 = tables r2 \<and>
     word_count_ok r1 = word_count_ok r2 \<and> meta_ok r1 = meta_ok r2"
  by (simp add: analyze_article_eq audit_result_def Let_def)

text \<open>
  Claim C10. For every plain_text, title and strict value, a window_chars that is zero or
  negative makes \<^verbatim>\<open>check_definition\<close> return a false verdict: the window is the empty
  string, in which the definition pattern has no match.
\<close>

theorem empty_window_no_definition:
  "window_chars \<le> 0 \<Longrightarrow> fst (check_definition plain_text title strict window_chars) = False"
  by (simp add: check_definition_def finditer_definition_empty Let_def)

theorem empty_window_no_definition_witness:
  "(0::int) \<le> 0 \<and>
   fst (check_definition (u ''Kreatin je doplnok'') (u ''Kreatin'') True 0) = False"
  using empty_window_no_definition [of 0 "u ''Kreatin je doplnok''" "u ''Kreatin''" True]
  by simp

section \<open>The facts check\<close>

text \<open>
  Claim C2. On the text \<^verbatim>\<open>5 mg, 10%, 200 kcal\<close> the facts check finds two matches, not
  three, and fails with the default threshold 3: the pattern ends in \<^verbatim>\<open>\b\<close>, and after
  a percent sign there is a word boundary only when a word character follows. The two
  matches are \<^verbatim>\<open>5 mg\<close> and \<^verbatim>\<open>200 kcal\<close>; \<^verbatim>\<open>10%\<close> alone has no match, \<^verbatim>\<open>10%x\<close> has one.
\<close>

theorem facts_percent_not_counted:
  "fst (check_facts (u ''5 mg, 10%, 200 kcal'') 3) = False \<and>
   map group0 (finditer UNITS_NUMBER_RE (u ''5 mg, 10%, 200 kcal'')) =
     [u ''5 mg'', u ''200 kcal''] \<and>
   finditer UNITS_NUMBER_RE (u ''10%'') = [] \<and>
   map group0 (finditer UNITS_NUMBER_RE (u ''10%x'')) = [u ''10%'']"
  by (simp add: check_facts_def regex_eval UNITS_NUMBER_RE_def Let_def)

section \<open>The definition check\<close>

lemmas text_eval = strip_def lower_def safe_str_def DEFINITION_STOPWORDS_def

lemma kreatin_strict_own_title: "fst (check_definition kreatin_text kreatin_title True 1200)"
  by (simp add: check_definition_def regex_eval text_eval DEFINITION_RE_def
      definition_letter_def kreatin_text_def kreatin_title_def Let_def)

lemma kreatin_lenient_own_title: "fst (check_definition kreatin_text kreatin_title False 1200)"
  by (simp add: check_definition_def regex_eval text_eval DEFINITION_RE_def
      definition_letter_def kreatin_text_def kreatin_title_def Let_def)

lemma kreatin_strict_other_title:
  "\<not> fst (check_definition kreatin_text vitaminy_title True 1200)"
  by (simp add: check_definition_def regex_eval text_eval DEFINITION_RE_def
      definition_letter_def kreatin_text_def vitaminy_title_def Let_def)

lemma kreatin_lenient_other_title:
  "fst (check_definition kreatin_text vitaminy_title False 1200)"
  by (simp add: check_definition_def regex_eval text_eval DEFINITION_RE_def
      definition_letter_def kreatin_text_def vitaminy_title_def Let_def)

lemma scan_no_title: "definition_scan True [] ms = definition_scan False [] ms"
  by (induction ms) (simp_all add: Let_def)

lemma definition_no_title:
  "fst (check_definition plain [] True w) = fst (check_definition plain [] False w)"
  by (simp add: check_definition_def Let_def lower_def strip_empty scan_no_title
      split: option.splits)

text \<open>
  Claim C6. With the default window 1200, the text that begins "Kreatin je doplnok
  vyzivy..." (written with its diacritics) passes the definition check under its own
  title in strict and in non-strict mode; under the title "Vitaminy" it passes in
  non-strict mode and fails in strict mode; and with an empty title the strict verdict
  is the non-strict verdict, for every text and window.
\<close>

theorem definition_title_containment:
  "fst (check_definition kreatin_text kreatin_title True 1200) \<and>
   fst (check_definition kreatin_text kreatin_title False 1200) \<and>
   \<not> fst (check_definition kreatin_text vitaminy_title True 1200) \<and>
   fst (check_definition kreatin_text vitaminy_title False 1200) \<and>
   fst (check_definition plain [] True w) = fst (check_definition plain [] False w)"
  using kreatin_strict_own_title kreatin_lenient_own_title kreatin_strict_other_title
    kreatin_lenient_other_title definition_no_title [of plain w]
  by blast

section \<open>The sources check\<close>













section \<open>The noise removal\<close>













section \<open>Exceptions in the public API\<close>











end
